theory Spec2Isabelle
  imports Complex_Main "HOL-Library.AList" "HOL-Library.Sublist"
begin

section \<open>TaskScheduler (enterprise-platform/app.js)\<close>

subsection \<open>Data\<close>

text \<open>
  A task object as the scheduler sees it. The caller passes an object literal to
  \<^verbatim>\<open>scheduleTask\<close>; the scheduler copies it (\<^verbatim>\<open>{...task, ...}\<close>) and overwrites
  \<^verbatim>\<open>id\<close>, \<^verbatim>\<open>scheduledAt\<close>, \<^verbatim>\<open>attempts\<close>, \<^verbatim>\<open>maxAttempts\<close> and \<^verbatim>\<open>status\<close>.
  A field that may be \<^verbatim>\<open>undefined\<close> is an option. Instants are milliseconds since the
  epoch (the source stores their ISO rendering). The source's Chinese message strings are
  written as English ASCII glosses.
\<close>

datatype task_result = TaskResult (result_status: string) (executionTime: nat) (processedAt: nat)

record task =
  task_id :: "string option"
  name :: string
  priority :: "string option"
  requiredCapabilities :: "string list option"
  maxAttempts :: "int option"
  attempts :: int
  status :: string
  scheduledAt :: "nat option"
  startTime :: "nat option"
  endTime :: "nat option"
  assignedAgent :: "string option"
  error :: "string option"
  result :: "task_result option"

text \<open>An entry of \<^verbatim>\<open>window.platform.agents\<close>, with the fields \<^verbatim>\<open>selectAgent\<close> reads.\<close>

record agent =
  agent_id :: string
  agent_status :: string
  currentTasks :: "string list option"
  capabilities :: "string list option"

record schedulerConfig =
  maxConcurrentTasks :: int
  maxTasksPerAgent :: int
  retryAttempts :: int
  retryDelay :: int

text \<open>
  The calls to \<^verbatim>\<open>window.platform.monitoring.logCollector.log\<close>, in the order they are
  made: the level, the kind of message and the task id of the payload.
\<close>

datatype log_kind = Enqueued | Started string | Finished | AttemptFailed int | FinallyFailed int

type_synonym log_entry = "string \<times> log_kind \<times> string option"

text \<open>
  The scheduler object. \<^verbatim>\<open>queues\<close> is the \<^verbatim>\<open>Map\<close> from priority to array,
  \<^verbatim>\<open>runningTasks\<close> the \<^verbatim>\<open>Map\<close> from task id to task (an association list in insertion
  order, so that \<^verbatim>\<open>size\<close> is its length). Two fields belong to the runtime, not to the
  object: \<^verbatim>\<open>timers\<close> holds the pending \<^verbatim>\<open>setTimeout\<close> callbacks of
  \<^verbatim>\<open>handleTaskFailure\<close> (delay and captured task), \<^verbatim>\<open>runs\<close> counts the calls of
  \<^verbatim>\<open>runTask\<close>, whose random outcome is read from a stream, and \<^verbatim>\<open>clock\<close> is what
  \<^verbatim>\<open>Date.now()\<close> returns.
\<close>

record scheduler =
  queues :: "string \<rightharpoonup> task list"
  runningTasks :: "(string option \<times> task) list"
  completedTasks :: "task list"
  failedTasks :: "task list"
  schedulerConfig :: schedulerConfig
  timers :: "(int \<times> task) list"
  runs :: nat
  clock :: nat
  logged :: "log_entry list"

definition constructor :: scheduler where
  "constructor =
     \<lparr> queues = Map.empty, runningTasks = [], completedTasks = [], failedTasks = [],
       schedulerConfig = \<lparr> maxConcurrentTasks = 50, maxTasksPerAgent = 5, retryAttempts = 3,
                  retryDelay = 1000 \<rparr>,
       timers = [], runs = 0, clock = 0, logged = [] \<rparr>"

subsection \<open>JavaScript's \<^verbatim>\<open>||\<close> on possibly undefined values\<close>

definition str_or :: "string option \<Rightarrow> string \<Rightarrow> string" where
  "str_or v d = (case v of None \<Rightarrow> d | Some x \<Rightarrow> if x = [] then d else x)"

definition int_or :: "int option \<Rightarrow> int \<Rightarrow> int" where
  "int_or v d = (case v of None \<Rightarrow> d | Some x \<Rightarrow> if x = 0 then d else x)"

subsection \<open>selectAgent\<close>

definition agent_load :: "agent \<Rightarrow> int" where
  "agent_load a = (case currentTasks a of None \<Rightarrow> 0 | Some ts \<Rightarrow> int (length ts))"

definition isReady :: "agent \<Rightarrow> bool" where
  "isReady a = (agent_status a = ''ready'')"

definition hasCapacity :: "schedulerConfig \<Rightarrow> agent \<Rightarrow> bool" where
  "hasCapacity c a = (agent_load a < maxTasksPerAgent c)"

text \<open>
  \<^verbatim>\<open>task.requiredCapabilities?.every(cap => agent.capabilities?.includes(cap)) || true\<close>:
  the optional chain is falsy on \<^verbatim>\<open>undefined\<close>, and the whole is or-ed with \<^verbatim>\<open>true\<close>.
\<close>

definition capabilitiesMatch :: "task \<Rightarrow> agent \<Rightarrow> bool" where
  "capabilitiesMatch t a =
     (case requiredCapabilities t of
        None \<Rightarrow> False
      | Some caps \<Rightarrow>
          list_all (\<lambda>cap. case capabilities a of None \<Rightarrow> False | Some cs \<Rightarrow> cap \<in> set cs) caps)"

definition hasRequiredCapabilities :: "task \<Rightarrow> agent \<Rightarrow> bool" where
  "hasRequiredCapabilities t a = (capabilitiesMatch t a \<or> True)"

definition availableAgents :: "schedulerConfig \<Rightarrow> agent list \<Rightarrow> task \<Rightarrow> agent list" where
  "availableAgents c agents t =
     filter (\<lambda>a. isReady a \<and> hasCapacity c a \<and> hasRequiredCapabilities t a) agents"

text \<open>\<^verbatim>\<open>Array.prototype.sort\<close> is stable; so is \<^const>\<open>sort_key\<close>.\<close>

definition selectAgent :: "schedulerConfig \<Rightarrow> agent list \<Rightarrow> task \<Rightarrow> agent option" where
  "selectAgent c agents t =
     (let avail = availableAgents c agents t
      in if avail = [] then None
         else (case sort_key agent_load avail of [] \<Rightarrow> None | a # _ \<Rightarrow> Some a))"

subsection \<open>scheduleTask\<close>

text \<open>\<^verbatim>\<open>fresh\<close> is what \<^verbatim>\<open>generateTaskId()\<close> returns.\<close>

definition scheduledTask :: "scheduler \<Rightarrow> string \<Rightarrow> task \<Rightarrow> task" where
  "scheduledTask s fresh t =
     t\<lparr> task_id := Some (str_or (task_id t) fresh),
        scheduledAt := Some (clock s),
        attempts := 0,
        maxAttempts := Some (int_or (maxAttempts t) (retryAttempts (schedulerConfig s))),
        status := ''queued'' \<rparr>"

definition queue_get :: "scheduler \<Rightarrow> string \<Rightarrow> task list" where
  "queue_get s p = (case queues s p of None \<Rightarrow> [] | Some q \<Rightarrow> q)"

definition scheduleTask :: "string \<Rightarrow> task \<Rightarrow> scheduler \<Rightarrow> task \<times> scheduler" where
  "scheduleTask fresh t s =
     (let p = str_or (priority t) ''medium'';
          st = scheduledTask s fresh t
      in (st, s\<lparr> queues := (queues s)(p \<mapsto> queue_get s p @ [st]),
                 logged := logged s @ [(''info'', Enqueued, task_id st)] \<rparr>))"

subsection \<open>handleTaskFailure and the retry callback\<close>

definition below_maxAttempts :: "task \<Rightarrow> bool" where
  "below_maxAttempts t = (case maxAttempts t of None \<Rightarrow> False | Some m \<Rightarrow> attempts t < m)"

definition handleTaskFailure :: "task \<Rightarrow> string \<Rightarrow> scheduler \<Rightarrow> scheduler" where
  "handleTaskFailure t msg s =
     (let t' = t\<lparr> attempts := attempts t + 1, status := ''failed'', error := Some msg,
                  endTime := Some (clock s) \<rparr>;
          s1 = s\<lparr> runningTasks := AList.delete (task_id t') (runningTasks s),
                  logged := logged s @ [(''error'', AttemptFailed (attempts t'), task_id t')] \<rparr>
      in if below_maxAttempts t'
         then s1\<lparr> timers := timers s1 @ [(retryDelay (schedulerConfig s1) * attempts t', t')] \<rparr>
         else s1\<lparr> failedTasks := failedTasks s1 @ [t'],
                  logged := logged s1 @ [(''error'', FinallyFailed (attempts t'), task_id t')] \<rparr>)"

text \<open>The body of the \<^verbatim>\<open>setTimeout\<close> callback, for the task it captured.\<close>

definition retryCallback :: "string \<Rightarrow> task \<Rightarrow> scheduler \<Rightarrow> scheduler" where
  "retryCallback fresh t s = snd (scheduleTask fresh (t\<lparr> status := ''retrying'' \<rparr>) s)"

subsection \<open>executeTask\<close>

text \<open>
  \<^verbatim>\<open>executeTask\<close> is cut where it awaits \<^verbatim>\<open>runTask\<close>. \<^verbatim>\<open>executeTask_begin\<close> is the
  part before: it returns the task and the agent that \<^verbatim>\<open>runTask\<close> is called with, or
  nothing when \<^verbatim>\<open>selectAgent\<close> found no agent and the thrown error went to
  \<^verbatim>\<open>handleTaskFailure\<close>. The map entry is the task object itself, so an assignment to the
  task is also written to the entry.
\<close>

definition executeTask_begin ::
  "agent list \<Rightarrow> task \<Rightarrow> scheduler \<Rightarrow> (task \<times> agent) option \<times> scheduler" where
  "executeTask_begin agents t s =
     (let t1 = t\<lparr> status := ''running'', startTime := Some (clock s) \<rparr>;
          s1 = s\<lparr> runningTasks := AList.update (task_id t1) t1 (runningTasks s) \<rparr>
      in case selectAgent (schedulerConfig s1) agents t1 of
           None \<Rightarrow> (None, handleTaskFailure t1 ''no agent available'' s1)
         | Some a \<Rightarrow>
             (let t2 = t1\<lparr> assignedAgent := Some (agent_id a) \<rparr>
              in (Some (t2, a),
                  s1\<lparr> runningTasks := AList.update (task_id t2) t2 (runningTasks s1),
                      logged := logged s1 @ [(''info'', Started (agent_id a), task_id t2)] \<rparr>)))"

text \<open>The part after \<^verbatim>\<open>runTask\<close> resolved with \<^verbatim>\<open>res\<close>.\<close>

definition executeTask_resolve :: "task \<Rightarrow> task_result \<Rightarrow> scheduler \<Rightarrow> scheduler" where
  "executeTask_resolve t res s =
     (let t' = t\<lparr> status := ''completed'', endTime := Some (clock s), result := Some res \<rparr>
      in s\<lparr> runningTasks := AList.delete (task_id t') (runningTasks s),
            completedTasks := completedTasks s @ [t'],
            logged := logged s @ [(''info'', Finished, task_id t')] \<rparr>)"

text \<open>
  \<^verbatim>\<open>runTask\<close>: the two random draws are the \<^verbatim>\<open>runs\<close>-th element of a stream
  \<^verbatim>\<open>rnd\<close> of pairs (execution time, success). The clock advances by the execution time.
\<close>

type_synonym outcomes = "nat \<Rightarrow> nat \<times> bool"

definition runTask :: "outcomes \<Rightarrow> task \<Rightarrow> agent \<Rightarrow> scheduler \<Rightarrow> (string + task_result) \<times> scheduler" where
  "runTask rnd t a s =
     (let (ms, ok) = rnd (runs s);
          s' = s\<lparr> runs := Suc (runs s), clock := clock s + ms \<rparr>
      in (if ok then Inr (TaskResult ''success'' ms (clock s'))
          else Inl ''task execution failed'', s'))"

definition executeTask :: "outcomes \<Rightarrow> agent list \<Rightarrow> task \<Rightarrow> scheduler \<Rightarrow> scheduler" where
  "executeTask rnd agents t s =
     (case executeTask_begin agents t s of
        (None, s1) \<Rightarrow> s1
      | (Some (t2, a), s1) \<Rightarrow>
          (case runTask rnd t2 a s1 of
             (Inr res, s2) \<Rightarrow> executeTask_resolve t2 res s2
           | (Inl msg, s2) \<Rightarrow> handleTaskFailure t2 msg s2))"

subsection \<open>processQueues, checkRunningTasks and the loop body\<close>

definition priorityOrder :: "string list" where
  "priorityOrder = [''critical'', ''high'', ''medium'', ''low'']"

definition canExecuteMoreTasks :: "scheduler \<Rightarrow> bool" where
  "canExecuteMoreTasks s = (int (length (runningTasks s)) < maxConcurrentTasks (schedulerConfig s))"

text \<open>
  The \<^verbatim>\<open>while\<close> loop over one level. The list is the array \<^verbatim>\<open>queue\<close>, which
  \<^verbatim>\<open>shift\<close> shortens in place; \<^verbatim>\<open>executeTask\<close> is awaited and runs to its end.
  Here the pass runs alone: no submission arrives and no retry timer fires while it awaits
  (the interleavings are the subject of the events further down).
\<close>

fun whileLoop :: "outcomes \<Rightarrow> agent list \<Rightarrow> string \<Rightarrow> task list \<Rightarrow> scheduler \<Rightarrow> scheduler" where
  "whileLoop rnd agents p [] s = s"
| "whileLoop rnd agents p (t # rest) s =
     (if canExecuteMoreTasks s
      then whileLoop rnd agents p rest (executeTask rnd agents t (s\<lparr> queues := (queues s)(p \<mapsto> rest) \<rparr>))
      else s)"

definition processLevel :: "outcomes \<Rightarrow> agent list \<Rightarrow> string \<Rightarrow> scheduler \<Rightarrow> scheduler" where
  "processLevel rnd agents p s = whileLoop rnd agents p (queue_get s p) s"

definition processQueues :: "outcomes \<Rightarrow> agent list \<Rightarrow> scheduler \<Rightarrow> scheduler" where
  "processQueues rnd agents s = fold (processLevel rnd agents) priorityOrder s"

definition timed_out :: "nat \<Rightarrow> task \<Rightarrow> bool" where
  "timed_out now t = (case startTime t of None \<Rightarrow> False | Some st \<Rightarrow> int now - int st > 300000)"

text \<open>
  The \<^verbatim>\<open>for ... of\<close> over the map visits the entries that are still present when their
  turn comes.
\<close>

fun checkEntries :: "nat \<Rightarrow> (string option \<times> task) list \<Rightarrow> scheduler \<Rightarrow> scheduler" where
  "checkEntries now [] s = s"
| "checkEntries now ((k, t) # es) s =
     checkEntries now es
       (if map_of (runningTasks s) k \<noteq> None \<and> timed_out now t
        then handleTaskFailure t ''task execution timed out'' s else s)"

definition checkRunningTasks :: "scheduler \<Rightarrow> scheduler" where
  "checkRunningTasks s = checkEntries (clock s) (runningTasks s) s"

definition sleep :: "nat \<Rightarrow> scheduler \<Rightarrow> scheduler" where
  "sleep ms s = s\<lparr> clock := clock s + ms \<rparr>"

text \<open>One pass of the body of \<^verbatim>\<open>scheduleLoop\<close>.\<close>

definition loopBody :: "outcomes \<Rightarrow> agent list \<Rightarrow> scheduler \<Rightarrow> scheduler" where
  "loopBody rnd agents s = sleep 1000 (checkRunningTasks (processQueues rnd agents s))"

text \<open>The pending retry timers fire, oldest first.\<close>

fun fireTimers :: "string \<Rightarrow> (int \<times> task) list \<Rightarrow> scheduler \<Rightarrow> scheduler" where
  "fireTimers fresh [] s = s"
| "fireTimers fresh ((d, t) # ts) s = fireTimers fresh ts (retryCallback fresh t s)"

definition fireAllTimers :: "string \<Rightarrow> scheduler \<Rightarrow> scheduler" where
  "fireAllTimers fresh s = fireTimers fresh (timers s) (s\<lparr> timers := [] \<rparr>)"

subsection \<open>Interleavings\<close>

text \<open>
  Between two awaits the source runs without interruption. Each event below is one such
  segment: a call of \<^verbatim>\<open>scheduleTask\<close>, one iteration of the \<^verbatim>\<open>while\<close> loop of
  \<^verbatim>\<open>processQueues\<close> up to the await of \<^verbatim>\<open>runTask\<close>, the continuation of
  \<^verbatim>\<open>executeTask\<close> after \<^verbatim>\<open>runTask\<close> resolved or rejected, \<^verbatim>\<open>checkRunningTasks\<close>,
  a retry timer firing, or time passing. The task that a continuation or a timer callback
  closes over is a parameter of the event, so every interleaving of the scheduler (also when
  \<^verbatim>\<open>stop\<close> and \<^verbatim>\<open>start\<close> have left more than one loop running) is a run of events.
\<close>

datatype event =
    Submit task string
  | Dispatch string "agent list"
  | Resolve task task_result
  | Reject task string
  | CheckRunning
  | RetryFires task string
  | Elapse nat

fun step :: "event \<Rightarrow> scheduler \<Rightarrow> scheduler" where
  "step (Submit t fresh) s = snd (scheduleTask fresh t s)"
| "step (Dispatch p agents) s =
     (if p \<in> set priorityOrder
      then (case queue_get s p of
              [] \<Rightarrow> s
            | t # rest \<Rightarrow>
                if canExecuteMoreTasks s
                then snd (executeTask_begin agents t (s\<lparr> queues := (queues s)(p \<mapsto> rest) \<rparr>))
                else s)
      else s)"
| "step (Resolve t res) s = executeTask_resolve t res s"
| "step (Reject t msg) s = handleTaskFailure t msg s"
| "step CheckRunning s = checkRunningTasks s"
| "step (RetryFires t fresh) s = retryCallback fresh t s"
| "step (Elapse ms) s = sleep ms s"

definition run :: "event list \<Rightarrow> scheduler \<Rightarrow> scheduler" where
  "run evs s = fold step evs s"

section \<open>TaskTracker and ReportGenerator\<close>

subsection \<open>JavaScript numbers and text\<close>

text \<open>
  A quotient of two numbers: exact where the divisor is not zero, otherwise what IEEE
  division gives. The comparisons of the source (\<^verbatim>\<open>> 0.1\<close>, \<^verbatim>\<open>< 0.9\<close>,
  \<^verbatim>\<open>> 20000\<close>) are all false on \<^verbatim>\<open>NaN\<close>. The source's doubles round the
  quotient of two counters; as long as the counters stay far below \<^verbatim>\<open>2^53\<close> the
  comparisons come out as on the exact quotient.
\<close>

datatype jsnum = Num real | PosInf | NegInf | NaN

definition js_div :: "real \<Rightarrow> real \<Rightarrow> jsnum" where
  "js_div a b = (if b \<noteq> 0 then Num (a / b) else if 0 < a then PosInf else if a < 0 then NegInf else NaN)"

fun js_times :: "jsnum \<Rightarrow> real \<Rightarrow> jsnum" where
  "js_times (Num x) c = Num (x * c)"
| "js_times PosInf c = (if 0 < c then PosInf else if c < 0 then NegInf else NaN)"
| "js_times NegInf c = (if 0 < c then NegInf else if c < 0 then PosInf else NaN)"
| "js_times NaN c = NaN"

fun js_gt :: "jsnum \<Rightarrow> real \<Rightarrow> bool" where
  "js_gt (Num x) c = (c < x)"
| "js_gt PosInf c = True"
| "js_gt NegInf c = False"
| "js_gt NaN c = False"

fun js_lt :: "jsnum \<Rightarrow> real \<Rightarrow> bool" where
  "js_lt (Num x) c = (x < c)"
| "js_lt PosInf c = False"
| "js_lt NegInf c = True"
| "js_lt NaN c = False"

text \<open>
  The built-ins whose result depends on floating point or on the host: they are pure
  functions of their arguments, and parameters of the model. \<^verbatim>\<open>sizeText\<close> is the
  expression of \<^verbatim>\<open>formatDataSize\<close> for a size other than zero.
\<close>

record js_runtime =
  toFixed :: "jsnum \<Rightarrow> nat \<Rightarrow> string"
  toLocaleTimeString :: "int \<Rightarrow> string"
  sizeText :: "real \<Rightarrow> string"

fun decimal_nat :: "nat \<Rightarrow> string" where
  "decimal_nat n =
     (if n < 10 then [char_of (48 + n)] else decimal_nat (n div 10) @ [char_of (48 + n mod 10)])"

definition decimal :: "int \<Rightarrow> string" where
  "decimal i = (if i < 0 then CHR ''-'' # decimal_nat (nat (- i)) else decimal_nat (nat i))"

subsection \<open>Data\<close>

record phase_data =
  data_agent :: "string option"

record phase =
  phase_type :: string
  phase_description :: string
  phase_status :: string
  phase_timestamp :: int
  phase_duration :: "int option"
  phase_data :: phase_data
  phase_agent :: string

record error_record =
  error_timestamp :: int
  error_message :: string
  error_stack :: "string option"
  error_agent :: string
  error_phase :: string

record sensor_usage =
  calls :: nat
  totalDataSize :: real
  totalProcessingTime :: int

record task_metrics =
  dataProcessingTime :: int
  apiCalls :: nat
  cacheHits :: nat
  accuracy :: "real option"

record tracked_task =
  taskId :: string
  description :: string
  tpriority :: string
  tstatus :: string
  createdAt :: int
  tstartTime :: "int option"
  tendTime :: "int option"
  duration :: "int option"
  phases :: "phase list"
  agentsInvolved :: "string list"
  sensorDataUsed :: "(string \<times> sensor_usage) list"
  results :: "string option"
  errors :: "error_record list"
  metrics :: task_metrics

record performanceMetrics =
  totalTasks :: nat
  successfulTasks :: nat
  tfailedTasks :: nat
  averageExecutionTime :: jsnum
  agentUtilization :: "(string \<times> nat) list"

record tracker =
  activeTasks :: "(string \<times> tracked_task) list"
  tcompletedTasks :: "tracked_task list"
  taskHistory :: "(tracked_task \<times> int) list"
  performanceMetrics :: performanceMetrics

text \<open>
  Fields that the scheduler's records already name carry a \<^verbatim>\<open>t\<close> in front. Every
  operation takes \<^verbatim>\<open>now\<close>, the value of \<^verbatim>\<open>Date.now()\<close> during the call.
\<close>

definition new_tracker :: tracker where
  "new_tracker =
     \<lparr> activeTasks = [], tcompletedTasks = [], taskHistory = [],
       performanceMetrics =
         \<lparr> totalTasks = 0, successfulTasks = 0, tfailedTasks = 0, averageExecutionTime = Num 0,
           agentUtilization = [(''traffic'', 0), (''weather'', 0), (''parking'', 0), (''security'', 0)] \<rparr> \<rparr>"

definition truthy :: "string option \<Rightarrow> bool" where
  "truthy v = (case v of None \<Rightarrow> False | Some x \<Rightarrow> x \<noteq> [])"

definition time_or :: "int option \<Rightarrow> int \<Rightarrow> int" where
  "time_or v d = (case v of None \<Rightarrow> d | Some x \<Rightarrow> if x = 0 then d else x)"

subsection \<open>TaskTracker: recording\<close>

definition newPhase :: "int \<Rightarrow> string \<Rightarrow> string \<Rightarrow> string \<Rightarrow> phase_data \<Rightarrow> phase" where
  "newPhase now phaseType descr st data =
     \<lparr> phase_type = phaseType, phase_description = descr, phase_status = st,
       phase_timestamp = now, phase_duration = None, phase_data = data,
       phase_agent = str_or (data_agent data) ''system'' \<rparr>"

definition noteAgent :: "phase_data \<Rightarrow> tracked_task \<Rightarrow> tracked_task" where
  "noteAgent data task =
     (if truthy (data_agent data) \<and> the (data_agent data) \<notin> set (agentsInvolved task)
      then task\<lparr> agentsInvolved := agentsInvolved task @ [the (data_agent data)] \<rparr>
      else task)"

definition addTaskPhase ::
  "int \<Rightarrow> string \<Rightarrow> string \<Rightarrow> string \<Rightarrow> string \<Rightarrow> phase_data \<Rightarrow> tracker \<Rightarrow> tracker" where
  "addTaskPhase now tid phaseType descr st data tr =
     (case map_of (activeTasks tr) tid of
        None \<Rightarrow> tr
      | Some task \<Rightarrow>
          (let ph = newPhase now phaseType descr st data;
               task1 = task\<lparr> phases := phases task @ [ph] \<rparr>;
               task2 = noteAgent data task1
           in tr\<lparr> activeTasks := AList.update tid task2 (activeTasks tr) \<rparr>))"

definition no_data :: phase_data where
  "no_data = \<lparr> data_agent = None \<rparr>"

definition createTaskTracker ::
  "int \<Rightarrow> string \<Rightarrow> string \<Rightarrow> string \<Rightarrow> tracker \<Rightarrow> tracked_task \<times> tracker" where
  "createTaskTracker now tid descr prio tr =
     (let task = \<lparr> taskId = tid, description = descr, tpriority = prio, tstatus = ''created'',
                    createdAt = now, tstartTime = None, tendTime = None, duration = None,
                    phases = [], agentsInvolved = [], sensorDataUsed = [], results = None,
                    errors = [],
                    metrics = \<lparr> dataProcessingTime = 0, apiCalls = 0, cacheHits = 0,
                                accuracy = None \<rparr> \<rparr>;
          tr1 = tr\<lparr> activeTasks := AList.update tid task (activeTasks tr) \<rparr>;
          tr2 = addTaskPhase now tid ''initialization'' ''task initialization'' ''info'' no_data tr1
      in (case map_of (activeTasks tr2) tid of None \<Rightarrow> task | Some t \<Rightarrow> t, tr2))"

definition recordSensorDataUsage :: "string \<Rightarrow> string \<Rightarrow> real \<Rightarrow> int \<Rightarrow> tracker \<Rightarrow> tracker" where
  "recordSensorDataUsage tid sensorType dataSize processingTime tr =
     (case map_of (activeTasks tr) tid of
        None \<Rightarrow> tr
      | Some task \<Rightarrow>
          (let old = (case map_of (sensorDataUsed task) sensorType of
                        None \<Rightarrow> \<lparr> calls = 0, totalDataSize = 0, totalProcessingTime = 0 \<rparr>
                      | Some u \<Rightarrow> u);
               new = \<lparr> calls = calls old + 1, totalDataSize = totalDataSize old + dataSize,
                       totalProcessingTime = totalProcessingTime old + processingTime \<rparr>;
               m = metrics task;
               task' = task\<lparr> sensorDataUsed := AList.update sensorType new (sensorDataUsed task),
                             metrics := m\<lparr> dataProcessingTime := dataProcessingTime m + processingTime,
                                          apiCalls := apiCalls m + 1 \<rparr> \<rparr>
           in tr\<lparr> activeTasks := AList.update tid task' (activeTasks tr) \<rparr>))"

definition recordError ::
  "int \<Rightarrow> string \<Rightarrow> string \<Rightarrow> string option \<Rightarrow> string \<Rightarrow> tracker \<Rightarrow> tracker" where
  "recordError now tid message stack ag tr =
     (case map_of (activeTasks tr) tid of
        None \<Rightarrow> tr
      | Some task \<Rightarrow>
          (let errorRecord =
                 \<lparr> error_timestamp = now, error_message = message, error_stack = stack,
                   error_agent = ag,
                   error_phase = (if phases task \<noteq> [] then phase_type (last (phases task))
                                  else ''unknown'') \<rparr>;
               task' = task\<lparr> errors := errors task @ [errorRecord] \<rparr>;
               tr1 = tr\<lparr> activeTasks := AList.update tid task' (activeTasks tr) \<rparr>
           in addTaskPhase now tid ''error'' (''error: '' @ message) ''error''
                \<lparr> data_agent = Some ag \<rparr> tr1))"

subsection \<open>ReportGenerator: helpers\<close>

text \<open>The unit words of the source are Chinese; they are written \<^verbatim>\<open>h\<close>, \<^verbatim>\<open>min\<close>, \<^verbatim>\<open>s\<close>.\<close>

definition formatDuration :: "int option \<Rightarrow> string" where
  "formatDuration d =
     (case d of
        None \<Rightarrow> ''N/A''
      | Some ms \<Rightarrow>
          if ms = 0 then ''N/A''
          else (let seconds = ms div 1000; minutes = seconds div 60; hours = minutes div 60
                in if 0 < hours then decimal hours @ ''h'' @ decimal (minutes mod 60) @ ''min''
                   else if 0 < minutes then decimal minutes @ ''min'' @ decimal (seconds mod 60) @ ''s''
                   else decimal seconds @ ''s''))"

definition formatDataSize :: "js_runtime \<Rightarrow> real \<Rightarrow> string" where
  "formatDataSize rt bytes = (if bytes = 0 then ''0 B'' else sizeText rt bytes)"

definition formatRelativeTime :: "int \<Rightarrow> string" where
  "formatRelativeTime ms = ''+'' @ formatDuration (Some ms)"

definition calculateSuccessRate :: "js_runtime \<Rightarrow> tracked_task \<Rightarrow> string" where
  "calculateSuccessRate rt task =
     (let totalPhases = length (phases task);
          errorPhases = length (filter (\<lambda>p. phase_status p = ''error'') (phases task))
      in toFixed rt (js_times (js_div (real_of_int (int totalPhases - int errorPhases))
                                 (real totalPhases)) 100) 1 @ ''%'')"

definition calculateAverageProcessingTime :: "js_runtime \<Rightarrow> phase list \<Rightarrow> string" where
  "calculateAverageProcessingTime rt ps =
     (if ps = [] then ''N/A''
      else (let totalTime = sum_list (map (\<lambda>p. case phase_duration p of None \<Rightarrow> 0 | Some d \<Rightarrow> d) ps)
            in toFixed rt (js_div (real_of_int totalTime) (real (length ps))) 1 @ ''ms''))"

definition calculateDataEfficiency :: "js_runtime \<Rightarrow> sensor_usage \<Rightarrow> string" where
  "calculateDataEfficiency rt d =
     toFixed rt (js_div (totalDataSize d) (real_of_int (totalProcessingTime d))) 2 @ '' KB/ms''"

subsection \<open>ReportGenerator: the task report\<close>

datatype execution_summary =
  ExecutionSummary (summary_status: string) (summary_duration: string) (summary_agents: nat)
    (phasesCompleted: nat) (errorsEncountered: nat) (dataProcessed: string)

datatype timeline_entry =
  TimelineEntry (entry_timestamp: string) (relativeTime: string) (entry_phase: string)
    (entry_description: string) (entry_status: string) (entry_agent: string)

datatype agent_stats =
  AgentStats (phasesHandled: nat) (errorsGenerated: nat) (stats_successRate: string)
    (averageProcessingTime: string)

datatype data_usage =
  DataUsage (usage_calls: nat) (usage_totalDataSize: string) (usage_averageProcessingTime: string)
    (efficiency: string)

datatype recommendation =
  Recommendation (rec_type: string) (rec_priority: string) (rec_description: string)
    (rec_details: "string list")

record report_metadata =
  generatedAt :: int
  taskDuration :: string
  successRate :: string

record task_report =
  report_taskId :: string
  title :: string
  executionSummary :: execution_summary
  timeline :: "timeline_entry list"
  agentPerformance :: "(string \<times> agent_stats) list"
  dataUsage :: "(string \<times> data_usage) list"
  report_results :: "string option"
  recommendations :: "recommendation list"
  metadata :: report_metadata

definition generateExecutionSummary :: "js_runtime \<Rightarrow> tracked_task \<Rightarrow> execution_summary" where
  "generateExecutionSummary rt task =
     ExecutionSummary (tstatus task) (formatDuration (duration task))
       (length (agentsInvolved task)) (length (phases task)) (length (errors task))
       (formatDataSize rt (sum_list (map (\<lambda>(k, d). totalDataSize d) (sensorDataUsed task))))"

definition generateTimeline :: "js_runtime \<Rightarrow> tracked_task \<Rightarrow> timeline_entry list" where
  "generateTimeline rt task =
     map (\<lambda>p. TimelineEntry (toLocaleTimeString rt (phase_timestamp p))
                 (formatRelativeTime (phase_timestamp p - createdAt task))
                 (phase_type p) (phase_description p) (phase_status p) (phase_agent p))
       (phases task)"

definition analyzeAgentPerformance :: "js_runtime \<Rightarrow> tracked_task \<Rightarrow> (string \<times> agent_stats) list" where
  "analyzeAgentPerformance rt task =
     fold (\<lambda>ag agentStats.
             (let agentPhases = filter (\<lambda>p. phase_agent p = ag) (phases task);
                  agentErrors = filter (\<lambda>e. error_agent e = ag) (errors task)
              in AList.update ag
                   (AgentStats (length agentPhases) (length agentErrors)
                      (if 0 < length agentPhases
                       then toFixed rt
                              (js_times (js_div (real_of_int (int (length agentPhases) - int (length agentErrors)))
                                           (real (length agentPhases))) 100) 1 @ ''%''
                       else ''N/A'')
                      (calculateAverageProcessingTime rt agentPhases))
                   agentStats))
       (agentsInvolved task) []"

definition analyzeSensorDataUsage :: "js_runtime \<Rightarrow> tracked_task \<Rightarrow> (string \<times> data_usage) list" where
  "analyzeSensorDataUsage rt task =
     fold (\<lambda>(sensorType, d) dataUsage.
             AList.update sensorType
               (DataUsage (calls d) (formatDataSize rt (totalDataSize d))
                  (toFixed rt (js_div (real_of_int (totalProcessingTime d)) (real (calls d))) 1 @ ''ms'')
                  (calculateDataEfficiency rt d))
               dataUsage)
       (sensorDataUsed task) []"

definition generateRecommendations :: "tracked_task \<Rightarrow> recommendation list" where
  "generateRecommendations task =
     (if 0 < length (errors task)
      then [Recommendation ''error_prevention'' ''high''
              ''errors detected; strengthen the error handling'' (map error_message (errors task))]
      else [])
     @ (if (case duration task of None \<Rightarrow> False | Some d \<Rightarrow> 30000 < d)
        then [Recommendation ''performance_optimization'' ''medium''
                ''long execution time; optimise the processing flow''
                [''consider parallel processing or caching'']]
        else [])
     @ (if 10 < sum_list (map (\<lambda>(k, d). calls d) (sensorDataUsed task))
        then [Recommendation ''data_optimization'' ''low''
                ''frequent data calls; enable a smarter caching strategy''
                [''fewer API calls and faster responses'']]
        else [])"

text \<open>\<^verbatim>\<open>now\<close> is the instant \<^verbatim>\<open>new Date()\<close> returns when the report is built.\<close>

definition generateTaskReport :: "js_runtime \<Rightarrow> int \<Rightarrow> tracked_task \<Rightarrow> task_report" where
  "generateTaskReport rt now task =
     \<lparr> report_taskId = taskId task,
       title = ''Task execution report - '' @ description task,
       executionSummary = generateExecutionSummary rt task,
       timeline = generateTimeline rt task,
       agentPerformance = analyzeAgentPerformance rt task,
       dataUsage = analyzeSensorDataUsage rt task,
       report_results = results task,
       recommendations = generateRecommendations task,
       metadata =
         \<lparr> generatedAt = now,
           taskDuration = formatDuration (duration task),
           successRate = (if length (errors task) = 0 then ''100%''
                          else calculateSuccessRate rt task) \<rparr> \<rparr>"

subsection \<open>TaskTracker: completion and metrics\<close>

definition updatePerformanceMetrics :: "tracked_task \<Rightarrow> tracker \<Rightarrow> tracker" where
  "updatePerformanceMetrics task tr =
     (let m = performanceMetrics tr;
          m1 = m\<lparr> totalTasks := totalTasks m + 1 \<rparr>;
          m2 = (if tstatus task = ''completed'' then m1\<lparr> successfulTasks := successfulTasks m1 + 1 \<rparr>
                else if tstatus task = ''failed'' then m1\<lparr> tfailedTasks := tfailedTasks m1 + 1 \<rparr>
                else m1);
          totalDuration = sum_list (map (\<lambda>t. case duration t of None \<Rightarrow> 0 | Some d \<Rightarrow> d)
                                      (tcompletedTasks tr));
          m3 = m2\<lparr> averageExecutionTime :=
                     js_div (real_of_int totalDuration) (real (length (tcompletedTasks tr))) \<rparr>;
          m4 = m3\<lparr> agentUtilization :=
                     fold (\<lambda>ag u. case map_of u ag of None \<Rightarrow> u | Some n \<Rightarrow> AList.update ag (n + 1) u)
                       (agentsInvolved task) (agentUtilization m3) \<rparr>
      in tr\<lparr> performanceMetrics := m4 \<rparr>)"

definition completeTask :: "js_runtime \<Rightarrow> int \<Rightarrow> string \<Rightarrow> tracker \<Rightarrow> task_report option \<times> tracker" where
  "completeTask rt now tid tr =
     (case map_of (activeTasks tr) tid of
        None \<Rightarrow> (None, tr)
      | Some task \<Rightarrow>
          (let tr1 = tr\<lparr> activeTasks := AList.delete tid (activeTasks tr),
                         tcompletedTasks := tcompletedTasks tr @ [task],
                         taskHistory := taskHistory tr @ [(task, now)] \<rparr>;
               tr2 = updatePerformanceMetrics task tr1
           in (Some (generateTaskReport rt now task), tr2)))"

definition updateTaskStatus ::
  "js_runtime \<Rightarrow> int \<Rightarrow> string \<Rightarrow> string \<Rightarrow> phase_data \<Rightarrow> tracker \<Rightarrow> tracker" where
  "updateTaskStatus rt now tid st details tr =
     (case map_of (activeTasks tr) tid of
        None \<Rightarrow> tr
      | Some task \<Rightarrow>
          (let previousStatus = tstatus task;
               tr1 = tr\<lparr> activeTasks := AList.update tid (task\<lparr> tstatus := st \<rparr>) (activeTasks tr) \<rparr>;
               tr2 = addTaskPhase now tid ''status_change''
                       (''status change: '' @ previousStatus @ '' -> '' @ st) st details tr1
           in case map_of (activeTasks tr2) tid of
                None \<Rightarrow> tr2
              | Some task2 \<Rightarrow>
                  if st = ''running''
                  then (if time_or (tstartTime task2) 0 = 0
                        then tr2\<lparr> activeTasks :=
                                    AList.update tid (task2\<lparr> tstartTime := Some now \<rparr>) (activeTasks tr2) \<rparr>
                        else tr2)
                  else if st = ''completed'' \<or> st = ''failed''
                  then (let task3 = task2\<lparr> tendTime := Some now,
                                            duration := Some (now - time_or (tstartTime task2) (createdAt task2)) \<rparr>;
                            tr3 = tr2\<lparr> activeTasks := AList.update tid task3 (activeTasks tr2) \<rparr>
                        in snd (completeTask rt now tid tr3))
                  else tr2))"

definition cleanupOldTasks :: "int \<Rightarrow> tracker \<Rightarrow> tracker" where
  "cleanupOldTasks now tr =
     (let oneWeekAgo = now - 7 * 24 * 60 * 60 * 1000
      in tr\<lparr> tcompletedTasks :=
                filter (\<lambda>t. oneWeekAgo < time_or (tendTime t) (createdAt t)) (tcompletedTasks tr),
              taskHistory := filter (\<lambda>(t, completedAt). oneWeekAgo < completedAt) (taskHistory tr) \<rparr>)"

text \<open>
  \<^verbatim>\<open>analyzePerformancePatterns\<close> prints the success rate and the average duration of the
  last 20 archived tasks, once there are five of them; these are the two numbers.
\<close>

definition analyzePerformancePatterns :: "tracker \<Rightarrow> (jsnum \<times> jsnum) option" where
  "analyzePerformancePatterns tr =
     (if length (tcompletedTasks tr) < 5 then None
      else (let recentTasks = drop (length (tcompletedTasks tr) - 20) (tcompletedTasks tr);
                successRate = js_div (real (length (filter (\<lambda>t. tstatus t = ''completed'') recentTasks)))
                                (real (length recentTasks));
                avgTime = js_div (real_of_int (sum_list (map (\<lambda>t. case duration t of None \<Rightarrow> 0 | Some d \<Rightarrow> d)
                                                           recentTasks)))
                            (real (length recentTasks))
            in Some (successRate, avgTime)))"

subsection \<open>ReportGenerator: system health\<close>

record systemData =
  sd_activeTasks :: "tracked_task list"
  sd_completedTasks :: "tracked_task list"
  sd_performanceMetrics :: performanceMetrics

record systemHealth =
  score :: int
  health_status :: string
  issues :: "string list"

definition assessSystemHealth :: "systemData \<Rightarrow> systemHealth" where
  "assessSystemHealth sd =
     (let m = sd_performanceMetrics sd;
          successRate = js_div (real (successfulTasks m)) (real (totalTasks m));
          errorRate = js_div (real (tfailedTasks m)) (real (totalTasks m));
          healthScore0 = (100::int);
          issues0 = [];
          (healthScore1, issues1) =
            (if js_gt errorRate (1 / 10) then (healthScore0 - 30, issues0 @ [''high error rate''])
             else (healthScore0, issues0));
          (healthScore2, issues2) =
            (if js_gt (averageExecutionTime m) 20000
             then (healthScore1 - 20, issues1 @ [''average execution time too long''])
             else (healthScore1, issues1));
          (healthScore3, issues3) =
            (if js_lt successRate (9 / 10) then (healthScore2 - 25, issues2 @ [''low success rate''])
             else (healthScore2, issues2))
      in \<lparr> score = max healthScore3 0,
           health_status = (if 80 < healthScore3 then ''excellent''
                            else if 60 < healthScore3 then ''good'' else ''poor''),
           issues = (if 0 < length issues3 then issues3 else [''system running normally'']) \<rparr>)"

text \<open>
  \<^verbatim>\<open>TaskTracker.generateSystemStatusReport\<close> builds the snapshot; the report's
  \<^verbatim>\<open>systemHealth\<close> entry is \<^verbatim>\<open>assessSystemHealth\<close> of it.
\<close>

definition snapshot :: "tracker \<Rightarrow> systemData" where
  "snapshot tr =
     \<lparr> sd_activeTasks = map snd (activeTasks tr), sd_completedTasks = tcompletedTasks tr,
       sd_performanceMetrics = performanceMetrics tr \<rparr>"

definition reportedHealth :: "tracker \<Rightarrow> systemHealth" where
  "reportedHealth tr = assessSystemHealth (snapshot tr)"

subsection \<open>Calls of the tracker, in sequence\<close>

datatype tracker_call =
    CreateTaskTracker string string string
  | AddTaskPhase string string string string phase_data
  | UpdateTaskStatus string string phase_data
  | RecordSensorDataUsage string string real int
  | RecordError string string "string option" string
  | CompleteTask string
  | CleanupOldTasks

fun call :: "js_runtime \<Rightarrow> int \<times> tracker_call \<Rightarrow> tracker \<Rightarrow> tracker" where
  "call rt (now, CreateTaskTracker tid descr prio) tr = snd (createTaskTracker now tid descr prio tr)"
| "call rt (now, AddTaskPhase tid phaseType descr st data) tr = addTaskPhase now tid phaseType descr st data tr"
| "call rt (now, UpdateTaskStatus tid st details) tr = updateTaskStatus rt now tid st details tr"
| "call rt (now, RecordSensorDataUsage tid sensorType dataSize processingTime) tr =
     recordSensorDataUsage tid sensorType dataSize processingTime tr"
| "call rt (now, RecordError tid message stack ag) tr = recordError now tid message stack ag tr"
| "call rt (now, CompleteTask tid) tr = snd (completeTask rt now tid tr)"
| "call rt (now, CleanupOldTasks) tr = cleanupOldTasks now tr"

definition calls_run :: "js_runtime \<Rightarrow> (int \<times> tracker_call) list \<Rightarrow> tracker \<Rightarrow> tracker" where
  "calls_run rt cs tr = fold (call rt) cs tr"




section \<open>Inputs and notions used in the statements\<close>

subsection \<open>Scheduler: example inputs\<close>

definition plain_task :: task where
  "plain_task =
     \<lparr> task_id = Some ''t1'', name = ''job'', priority = None, requiredCapabilities = None,
       maxAttempts = Some 3, attempts = 0, status = [], scheduledAt = None, startTime = None,
       endTime = None, assignedAgent = None, error = None, result = None \<rparr>"

definition urgent_task :: task where
  "urgent_task = plain_task\<lparr> priority := Some ''urgent'' \<rparr>"

definition ml_task :: task where
  "ml_task = plain_task\<lparr> requiredCapabilities := Some [''ml''] \<rparr>"

definition idle_agent :: agent where
  "idle_agent =
     \<lparr> agent_id = ''a1'', agent_status = ''ready'', currentTasks = Some [],
       capabilities = Some [''io''] \<rparr>"

definition always_fails :: outcomes where
  "always_fails = (\<lambda>n. (1000, False))"



text \<open>The scheduler after one submission, and after a low and then a high submission.\<close>

definition submitted :: scheduler where
  "submitted = snd (scheduleTask ''g1'' plain_task constructor)"





subsection \<open>Scheduler: observations\<close>

text \<open>
  One dispatch and execute cycle: a pass of the loop body, after which the pending retry
  timers fire.
\<close>

definition cycle :: "outcomes \<Rightarrow> agent list \<Rightarrow> string \<Rightarrow> scheduler \<Rightarrow> scheduler" where
  "cycle rnd agents fresh s = fireAllTimers fresh (loopBody rnd agents s)"

text \<open>
  The state in which one task, submitted with \<^verbatim>\<open>maxAttempts = 3\<close>, waits alone in the
  \<^verbatim>\<open>medium\<close> queue with a counter of zero.
\<close>

definition retry_inv :: "scheduler \<Rightarrow> bool" where
  "retry_inv s = (failedTasks s = [] \<and> runningTasks s = [] \<and> timers s = [] \<and>
      schedulerConfig s = schedulerConfig constructor \<and> queue_get s ''critical'' = [] \<and> queue_get s ''high'' = [] \<and>
      queue_get s ''low'' = [] \<and>
      (\<exists>t. queue_get s ''medium'' = [t] \<and> task_id t = Some ''t1'' \<and> priority t = None \<and>
           maxAttempts t = Some 3 \<and> attempts t = 0 \<and> status t = ''queued''))"

text \<open>What \<^verbatim>\<open>handleTaskFailure\<close> leaves of a task that \<^verbatim>\<open>executeTask\<close> had started.\<close>

definition failedAttempt :: "string \<Rightarrow> nat \<Rightarrow> task \<Rightarrow> task" where
  "failedAttempt msg now t =
     t\<lparr> status := ''failed'', startTime := Some now, attempts := attempts t + 1,
        error := Some msg, endTime := Some now \<rparr>"

text \<open>The task ids of the "task started" messages, in the order they were written.\<close>

definition isStarted :: "log_entry \<Rightarrow> bool" where
  "isStarted e = (case fst (snd e) of Started a \<Rightarrow> True | _ \<Rightarrow> False)"

definition startedIds :: "log_entry list \<Rightarrow> string option list" where
  "startedIds l = map (\<lambda>e. snd (snd e)) (filter isStarted l)"

subsection \<open>Tracker: example inputs\<close>

definition plain_runtime :: js_runtime where
  "plain_runtime =
     \<lparr> toFixed = (\<lambda>x d. ''#''), toLocaleTimeString = (\<lambda>t. decimal t), sizeText = (\<lambda>b. ''#'') \<rparr>"

text \<open>A task is created and at once brought to a final status, all at instant 0.\<close>

definition finish :: "string \<Rightarrow> (int \<times> tracker_call) list" where
  "finish st = [(0, CreateTaskTracker ''t'' ''d'' ''medium''), (0, UpdateTaskStatus ''t'' st no_data)]"

definition one_success :: tracker where
  "one_success = calls_run plain_runtime (finish ''completed'') new_tracker"

definition one_failure :: tracker where
  "one_failure = calls_run plain_runtime (finish ''failed'') new_tracker"

definition history40 :: tracker where
  "history40 =
     calls_run plain_runtime
       (concat (map finish (replicate 37 ''completed'' @ replicate 3 ''failed''))) new_tracker"



subsection \<open>Tracker: observations\<close>

text \<open>
  The state after tasks were finished one after the other with the statuses \<^verbatim>\<open>sts\<close>,
  each with duration 0.
\<close>

definition finished_inv :: "tracker \<Rightarrow> string list \<Rightarrow> bool" where
  "finished_inv tr sts =
     (activeTasks tr = [] \<and> map tstatus (tcompletedTasks tr) = sts
      \<and> list_all (\<lambda>t. duration t = Some 0) (tcompletedTasks tr)
      \<and> totalTasks (performanceMetrics tr) = length sts
      \<and> successfulTasks (performanceMetrics tr) = length (filter (\<lambda>s. s = ''completed'') sts)
      \<and> tfailedTasks (performanceMetrics tr) = length (filter (\<lambda>s. s = ''failed'') sts)
      \<and> averageExecutionTime (performanceMetrics tr) = Num 0)"

text \<open>The two rates that \<^verbatim>\<open>assessSystemHealth\<close> computes from the counters.\<close>

definition errorRate :: "tracker \<Rightarrow> jsnum" where
  "errorRate tr = js_div (real (tfailedTasks (performanceMetrics tr))) (real (totalTasks (performanceMetrics tr)))"

definition cumulativeSuccessRate :: "tracker \<Rightarrow> jsnum" where
  "cumulativeSuccessRate tr =
     js_div (real (successfulTasks (performanceMetrics tr))) (real (totalTasks (performanceMetrics tr)))"

text \<open>
  \<^verbatim>\<open>grows t t'\<close>: the phases and the errors of \<^verbatim>\<open>t'\<close> extend those of \<^verbatim>\<open>t\<close> at
  the end. \<^verbatim>\<open>kept tr tr' tid\<close>: a task active under \<^verbatim>\<open>tid\<close> in \<^verbatim>\<open>tr'\<close> was active
  in \<^verbatim>\<open>tr\<close> and has grown.
\<close>

definition grows :: "tracked_task \<Rightarrow> tracked_task \<Rightarrow> bool" where
  "grows t t' = (prefix (phases t) (phases t') \<and> prefix (errors t) (errors t'))"

definition kept :: "tracker \<Rightarrow> tracker \<Rightarrow> string \<Rightarrow> bool" where
  "kept tr tr' tid =
     (case map_of (activeTasks tr') tid of
        None \<Rightarrow> True
      | Some t' \<Rightarrow> (case map_of (activeTasks tr) tid of None \<Rightarrow> False | Some t \<Rightarrow> grows t t'))"

section \<open>Properties of the scheduler\<close>

subsection \<open>Worker selection\<close>

lemma hasRequiredCapabilities_True: "hasRequiredCapabilities t a"
  by (simp add: hasRequiredCapabilities_def)

lemma availableAgents_eq:
  "availableAgents c agents t = filter (\<lambda>a. isReady a \<and> hasCapacity c a) agents"
  by (simp add: availableAgents_def hasRequiredCapabilities_def)

text \<open>
  C3. The claim excludes a worker that lacks a required capability. The source's test ends in
  \<^verbatim>\<open>|| true\<close>, so it never excludes anyone: for a task that requires \<^verbatim>\<open>ml\<close>, the only
  agent, which offers \<^verbatim>\<open>io\<close> alone, is selected.
\<close>

theorem selectAgent_ignores_capabilities:
  "\<not> capabilitiesMatch ml_task idle_agent
   \<and> selectAgent (schedulerConfig constructor) [idle_agent] ml_task = Some idle_agent"
  by (simp add: selectAgent_def availableAgents_def hasRequiredCapabilities_def capabilitiesMatch_def
      isReady_def hasCapacity_def agent_load_def ml_task_def plain_task_def idle_agent_def
      constructor_def)

subsection \<open>Submission\<close>

lemma scheduleTask_queues:
  "queues (snd (scheduleTask fresh t s)) =
     (queues s)(str_or (priority t) ''medium'' \<mapsto>
        queue_get s (str_or (priority t) ''medium'') @ [fst (scheduleTask fresh t s)])"
  by (simp add: scheduleTask_def Let_def)

lemma urgent_priority: "priority urgent_task = Some ''urgent''"
  by (simp add: urgent_task_def)

lemma scheduleTask_status: "status (fst (scheduleTask fresh t s)) = ''queued''"
  by (simp add: scheduleTask_def scheduledTask_def Let_def)

text \<open>
  C4, as stated, fails: a task submitted with priority \<^verbatim>\<open>urgent\<close> is neither moved to the
  \<^verbatim>\<open>medium\<close> queue nor rejected; it is queued under \<^verbatim>\<open>urgent\<close>.
\<close>

theorem scheduleTask_unrecognized_counterexample:
  "queues (snd (scheduleTask ''g1'' urgent_task constructor)) ''medium'' = None
   \<and> queues (snd (scheduleTask ''g1'' urgent_task constructor)) ''urgent''
       = Some [fst (scheduleTask ''g1'' urgent_task constructor)]
   \<and> ''urgent'' \<notin> set priorityOrder"
  by (simp add: scheduleTask_queues str_or_def urgent_priority queue_get_def
      constructor_def priorityOrder_def)

text \<open>
  C4, amended: \<^verbatim>\<open>scheduleTask\<close> has no rejecting path. It falls back to \<^verbatim>\<open>medium\<close>
  only when the priority is missing or the empty string; any other priority string,
  recognized or not, is the key of the queue to whose tail the record is appended, with
  status \<^verbatim>\<open>queued\<close>. No other queue changes.
\<close>

theorem scheduleTask_queue_key:
  "scheduleTask fresh t s = (st, s') \<Longrightarrow>
     p = (if priority t = None \<or> priority t = Some [] then ''medium'' else the (priority t)) \<Longrightarrow>
     queues s' p = Some (queue_get s p @ [st]) \<and> status st = ''queued''
     \<and> (\<forall>q. q \<noteq> p \<longrightarrow> queues s' q = queues s q)"
proof -
  assume a: "scheduleTask fresh t s = (st, s')"
    and p: "p = (if priority t = None \<or> priority t = Some [] then ''medium'' else the (priority t))"
  have k: "str_or (priority t) ''medium'' = p"
    unfolding p by (simp add: str_or_def split: option.splits)
  have q: "queues s' = (queues s)(p \<mapsto> queue_get s p @ [st])"
    using scheduleTask_queues [of fresh t s] by (simp add: a k)
  have st: "status st = ''queued''"
    using scheduleTask_status [of fresh t s] by (simp add: a)
  show ?thesis by (simp add: q st)
qed

theorem scheduleTask_queue_key_witness:
  "queues (snd (scheduleTask ''g1'' urgent_task constructor)) ''urgent''
     = Some (queue_get constructor ''urgent'' @ [fst (scheduleTask ''g1'' urgent_task constructor)])
   \<and> status (fst (scheduleTask ''g1'' urgent_task constructor)) = ''queued''
   \<and> queues (snd (scheduleTask ''g1'' urgent_task constructor)) ''medium''
       = queues constructor ''medium''"
  using scheduleTask_queue_key [of "''g1''" urgent_task constructor
      "fst (scheduleTask ''g1'' urgent_task constructor)"
      "snd (scheduleTask ''g1'' urgent_task constructor)" "''urgent''"]
  by (simp add: urgent_priority)

lemma sort_key_nonempty: "xs \<noteq> [] \<Longrightarrow> sort_key f xs \<noteq> []"
  using length_sort [of f xs] by (metis length_0_conv)

lemma selectAgent_None:
  "selectAgent c agents t = None \<longleftrightarrow> \<not> (\<exists>a \<in> set agents. isReady a \<and> hasCapacity c a)"
proof (cases "filter (\<lambda>a. isReady a \<and> hasCapacity c a) agents = []")
  case True
  have "selectAgent c agents t = None"
    by (simp add: selectAgent_def availableAgents_eq True)
  moreover have "\<not> (\<exists>a \<in> set agents. isReady a \<and> hasCapacity c a)"
    using True by (simp add: filter_empty_conv)
  ultimately show ?thesis by simp
next
  case False
  obtain a rest where s: "sort_key agent_load (filter (\<lambda>a. isReady a \<and> hasCapacity c a) agents) = a # rest"
    using sort_key_nonempty [OF False, of agent_load] by (meson list.exhaust)
  have "selectAgent c agents t = Some a"
    by (simp add: selectAgent_def availableAgents_eq False s)
  moreover have "\<exists>a \<in> set agents. isReady a \<and> hasCapacity c a"
    using False by (simp add: filter_empty_conv)
  ultimately show ?thesis by simp
qed

lemma selectAgent_least_loaded:
  assumes "selectAgent c agents t = Some a"
  shows "a \<in> set agents \<and> isReady a \<and> hasCapacity c a
    \<and> (\<forall>b \<in> set agents. isReady b \<and> hasCapacity c b \<longrightarrow> agent_load a \<le> agent_load b)
    \<and> (\<exists>rest. filter (\<lambda>b. isReady b \<and> hasCapacity c b \<and> agent_load b = agent_load a) agents = a # rest)"
proof -
  let ?av = "filter (\<lambda>a. isReady a \<and> hasCapacity c a) agents"
  have "(if ?av = [] then None
         else case sort_key agent_load ?av of [] \<Rightarrow> None | a # x \<Rightarrow> Some a) = Some a"
    using assms by (simp add: selectAgent_def availableAgents_eq Let_def)
  then obtain rest where s: "sort_key agent_load ?av = a # rest"
    by (cases "?av = []"; cases "sort_key agent_load ?av") simp_all
  have m: "a \<in> set ?av" using set_sort [of agent_load ?av] s by (metis list.set_intros(1))
  have "sorted (map agent_load (sort_key agent_load ?av))" by (rule sorted_sort_key)
  then have le: "\<forall>b \<in> set rest. agent_load a \<le> agent_load b" by (simp add: s)
  have "set ?av = insert a (set rest)" using set_sort [of agent_load ?av] by (simp add: s)
  then have mn: "\<forall>b \<in> set ?av. agent_load a \<le> agent_load b" using le by auto
  have "filter (\<lambda>y. agent_load y = agent_load a) ?av
      = filter (\<lambda>y. agent_load y = agent_load a) (sort_key agent_load ?av)"
    by (rule sort_key_stable [symmetric])
  also have "\<dots> = a # filter (\<lambda>y. agent_load y = agent_load a) rest" by (simp add: s)
  finally have "filter (\<lambda>b. isReady b \<and> hasCapacity c b \<and> agent_load b = agent_load a) agents
      = a # filter (\<lambda>y. agent_load y = agent_load a) rest"
    by (simp add: conj_commute conj_left_commute cong: conj_cong)
  then show ?thesis using m mn by auto
qed

subsection \<open>The running set is bounded\<close>

lemma handleTaskFailure_running:
  "runningTasks (handleTaskFailure t msg s) = AList.delete (task_id t) (runningTasks s)"
  by (simp add: handleTaskFailure_def Let_def)

lemma handleTaskFailure_config: "schedulerConfig (handleTaskFailure t msg s) = schedulerConfig s"
  by (simp add: handleTaskFailure_def Let_def)

lemma handleTaskFailure_queues: "queues (handleTaskFailure t msg s) = queues s"
  by (simp add: handleTaskFailure_def Let_def)

lemma executeTask_resolve_running:
  "runningTasks (executeTask_resolve t res s) = AList.delete (task_id t) (runningTasks s)"
  by (simp add: executeTask_resolve_def Let_def)

lemma executeTask_resolve_config: "schedulerConfig (executeTask_resolve t res s) = schedulerConfig s"
  by (simp add: executeTask_resolve_def Let_def)

lemma executeTask_resolve_queues: "queues (executeTask_resolve t res s) = queues s"
  by (simp add: executeTask_resolve_def Let_def)


lemma scheduleTask_config: "schedulerConfig (snd (scheduleTask fresh t s)) = schedulerConfig s"
  by (simp add: scheduleTask_def Let_def)

lemma executeTask_begin_config: "schedulerConfig (snd (executeTask_begin agents t s)) = schedulerConfig s"
  by (simp add: executeTask_begin_def Let_def handleTaskFailure_config split: option.splits)

lemma executeTask_begin_queues: "queues (snd (executeTask_begin agents t s)) = queues s"
  by (simp add: executeTask_begin_def Let_def handleTaskFailure_queues split: option.splits)



lemma checkEntries_config: "schedulerConfig (checkEntries now es s) = schedulerConfig s"
  by (induction es arbitrary: s) (auto simp: handleTaskFailure_config)



lemma step_config: "schedulerConfig (step e s) = schedulerConfig s"
  by (cases e)
    (simp_all add: scheduleTask_config executeTask_begin_config executeTask_resolve_config
      handleTaskFailure_config checkRunningTasks_def checkEntries_config retryCallback_def
      sleep_def split: list.splits)

lemma run_config: "schedulerConfig (run evs s) = schedulerConfig s"
  unfolding run_def by (induction evs arbitrary: s) (simp_all add: step_config)





subsection \<open>What the operations leave unchanged\<close>




lemma scheduleTask_queue_get:
  "queue_get (snd (scheduleTask fresh t s)) p =
     (if p = str_or (priority t) ''medium'' then queue_get s p @ [fst (scheduleTask fresh t s)]
      else queue_get s p)"
  by (simp add: queue_get_def scheduleTask_queues)

lemma runTask_queues: "queues (snd (runTask rnd t a s)) = queues s"
  by (simp add: runTask_def Let_def split: prod.splits)

lemma runTask_config: "schedulerConfig (snd (runTask rnd t a s)) = schedulerConfig s"
  by (simp add: runTask_def Let_def split: prod.splits)

lemma runTask_running: "runningTasks (snd (runTask rnd t a s)) = runningTasks s"
  by (simp add: runTask_def Let_def split: prod.splits)

lemma executeTask_queues: "queues (executeTask rnd agents t s) = queues s"
proof -
  obtain r s1 where b: "executeTask_begin agents t s = (r, s1)" by (cases "executeTask_begin agents t s")
  have q1: "queues s1 = queues s" using executeTask_begin_queues [of agents t s] by (simp add: b)
  show ?thesis
  proof (cases r)
    case None
    then show ?thesis by (simp add: executeTask_def b q1)
  next
    case (Some ta)
    obtain t2 a where ta: "ta = (t2, a)" by (cases ta)
    obtain o2 s2 where r: "runTask rnd t2 a s1 = (o2, s2)" by (cases "runTask rnd t2 a s1")
    have q2: "queues s2 = queues s" using runTask_queues [of rnd t2 a s1] by (simp add: r q1)
    show ?thesis
      by (cases o2)
        (simp_all add: executeTask_def b Some ta r q2 handleTaskFailure_queues executeTask_resolve_queues)
  qed
qed

lemma executeTask_config: "schedulerConfig (executeTask rnd agents t s) = schedulerConfig s"
proof -
  obtain r s1 where b: "executeTask_begin agents t s = (r, s1)" by (cases "executeTask_begin agents t s")
  have q1: "schedulerConfig s1 = schedulerConfig s" using executeTask_begin_config [of agents t s] by (simp add: b)
  show ?thesis
  proof (cases r)
    case None
    then show ?thesis by (simp add: executeTask_def b q1)
  next
    case (Some ta)
    obtain t2 a where ta: "ta = (t2, a)" by (cases ta)
    obtain o2 s2 where r: "runTask rnd t2 a s1 = (o2, s2)" by (cases "runTask rnd t2 a s1")
    have q2: "schedulerConfig s2 = schedulerConfig s" using runTask_config [of rnd t2 a s1] by (simp add: r q1)
    show ?thesis
      by (cases o2)
        (simp_all add: executeTask_def b Some ta r q2 handleTaskFailure_config executeTask_resolve_config)
  qed
qed




subsection \<open>Dispatch order\<close>

lemma startedIds_append: "startedIds (l @ m) = startedIds l @ startedIds m"
  by (simp add: startedIds_def)

lemma selectAgent_update:
  "selectAgent c agents (t\<lparr>status := x, startTime := y\<rparr>) = selectAgent c agents t"
  by (simp add: selectAgent_def availableAgents_def hasRequiredCapabilities_def capabilitiesMatch_def)





lemma executeTask_begin_task:
  "executeTask_begin agents t s = (Some (t2, a), s1) \<Longrightarrow> task_id t2 = task_id t"
  by (auto simp: executeTask_begin_def Let_def split: option.splits)

lemma executeTask_begin_running_del:
  "AList.delete (task_id t) (runningTasks (snd (executeTask_begin agents t s)))
     = AList.delete (task_id t) (runningTasks s)"
  by (cases "selectAgent (schedulerConfig s) agents t")
    (simp_all add: executeTask_begin_def Let_def selectAgent_update handleTaskFailure_running
      delete_update_same delete_idem)

lemma executeTask_begin_None_running:
  "executeTask_begin agents t s = (None, s1) \<Longrightarrow>
     runningTasks s1 = AList.delete (task_id t) (runningTasks s)"
  by (auto simp: executeTask_begin_def Let_def handleTaskFailure_running delete_update_same
      split: option.splits)


lemma executeTask_running:
  "runningTasks (executeTask rnd agents t s) = AList.delete (task_id t) (runningTasks s)"
proof -
  obtain r s1 where b: "executeTask_begin agents t s = (r, s1)" by (cases "executeTask_begin agents t s")
  have d: "AList.delete (task_id t) (runningTasks s1) = AList.delete (task_id t) (runningTasks s)"
    using executeTask_begin_running_del [of t agents s] by (simp add: b)
  show ?thesis
  proof (cases r)
    case None
    then show ?thesis using executeTask_begin_None_running [of agents t s s1]
      by (simp add: executeTask_def b)
  next
    case (Some ta)
    obtain t2 a where ta: "ta = (t2, a)" by (cases ta)
    have i: "task_id t2 = task_id t" using executeTask_begin_task [of agents t s t2 a s1] b Some ta by simp
    obtain o2 s2 where r: "runTask rnd t2 a s1 = (o2, s2)" by (cases "runTask rnd t2 a s1")
    have l2: "runningTasks s2 = runningTasks s1" using runTask_running [of rnd t2 a s1] by (simp add: r)
    show ?thesis
      by (cases o2)
        (simp_all add: executeTask_def b Some ta r handleTaskFailure_running
          executeTask_resolve_running l2 i d)
  qed
qed












lemma select_none: "selectAgent c [] t = None"
  by (simp add: selectAgent_def availableAgents_def)

lemma plain_priority: "priority plain_task = None"
  by (simp add: plain_task_def)

lemma queue_get_constructor: "queue_get constructor p = []"
  by (simp add: queue_get_def constructor_def)

lemma submitted_medium: "queue_get submitted ''medium'' = [fst (scheduleTask ''g1'' plain_task constructor)]"
  by (simp add: submitted_def scheduleTask_queue_get str_or_def plain_priority queue_get_constructor)

lemma processLevel_empty: "queue_get s p = [] \<Longrightarrow> processLevel rnd agents p s = s"
  by (simp add: processLevel_def)

lemma select_idle: "selectAgent (schedulerConfig constructor) [idle_agent] t = Some idle_agent"
  by (simp add: selectAgent_def availableAgents_def hasRequiredCapabilities_def
      isReady_def hasCapacity_def agent_load_def idle_agent_def constructor_def)










subsection \<open>No agent available\<close>

lemma executeTask_no_agent:
  assumes "selectAgent (schedulerConfig s) agents t = None"
  shows "executeTask rnd agents t s =
     handleTaskFailure (t\<lparr>status := ''running'', startTime := Some (clock s)\<rparr>) ''no agent available''
       (s\<lparr>runningTasks := AList.update (task_id t)
            (t\<lparr>status := ''running'', startTime := Some (clock s)\<rparr>) (runningTasks s)\<rparr>)"
  using assms by (simp add: executeTask_def executeTask_begin_def Let_def selectAgent_update)

text \<open>
  C2, amended: when \<^verbatim>\<open>selectAgent\<close> finds no agent, \<^verbatim>\<open>executeTask\<close> treats the task as
  a failed attempt. The queues are left as they are (the task is not put back), the task
  leaves the running set, its counter goes up by one and its status is \<^verbatim>\<open>failed\<close> with
  the message of the thrown error; then either a retry timer with delay
  \<^verbatim>\<open>retryDelay * attempts\<close> is registered (counter below \<^verbatim>\<open>maxAttempts\<close>) or the
  task is appended to \<^verbatim>\<open>failedTasks\<close>.
\<close>
theorem no_agent_is_a_failed_attempt:
  assumes "selectAgent (schedulerConfig s) agents t = None"
    and "s' = executeTask rnd agents t s"
    and "t' = failedAttempt ''no agent available'' (clock s) t"
  shows "queues s' = queues s
     \<and> runningTasks s' = AList.delete (task_id t) (runningTasks s)
     \<and> (if below_maxAttempts t'
         then timers s' = timers s @ [(retryDelay (schedulerConfig s) * attempts t', t')]
              \<and> failedTasks s' = failedTasks s
         else timers s' = timers s \<and> failedTasks s' = failedTasks s @ [t'])"
  unfolding assms(2) executeTask_no_agent [OF assms(1)] assms(3)
  by (simp add: handleTaskFailure_def Let_def failedAttempt_def delete_update_same
      below_maxAttempts_def split: option.splits)

text \<open>
  C2, as stated, fails: with no agent registered, a pass of \<^verbatim>\<open>processQueues\<close> takes the
  queued task out of its queue and does not put it back; the task is \<^verbatim>\<open>failed\<close> with
  \<^verbatim>\<open>attempts = 1\<close> and waits for a retry timer.
\<close>
theorem no_agent_counterexample:
  "map status (queue_get submitted ''medium'') = [''queued'']
   \<and> queue_get (processQueues always_fails [] submitted) ''medium'' = []
   \<and> map (status \<circ> snd) (timers (processQueues always_fails [] submitted)) = [''failed'']
   \<and> map (attempts \<circ> snd) (timers (processQueues always_fails [] submitted)) = [1]"
  by (simp add: processQueues_def priorityOrder_def processLevel_def submitted_def scheduleTask_def
    scheduledTask_def Let_def queue_get_def constructor_def plain_task_def str_or_def int_or_def
    canExecuteMoreTasks_def executeTask_no_agent select_none handleTaskFailure_def below_maxAttempts_def)

theorem no_agent_is_a_failed_attempt_witness:
  "selectAgent (schedulerConfig constructor) [] plain_task = None
   \<and> queues (executeTask always_fails [] plain_task constructor) = queues constructor
   \<and> runningTasks (executeTask always_fails [] plain_task constructor) = []
   \<and> timers (executeTask always_fails [] plain_task constructor)
       = [(1000, failedAttempt ''no agent available'' 0 plain_task)]
   \<and> failedTasks (executeTask always_fails [] plain_task constructor) = []
   \<and> attempts (failedAttempt ''no agent available'' 0 plain_task) = 1
   \<and> status (failedAttempt ''no agent available'' 0 plain_task) = ''failed''"
proof -
  have b: "below_maxAttempts (failedAttempt ''no agent available'' 0 plain_task)"
    by (simp add: below_maxAttempts_def failedAttempt_def plain_task_def)
  have c: "clock constructor = 0" "runningTasks constructor = []" "timers constructor = []"
    "failedTasks constructor = []" "retryDelay (schedulerConfig constructor) = 1000"
    by (simp_all add: constructor_def)
  have a: "attempts (failedAttempt ''no agent available'' 0 plain_task) = 1"
    "status (failedAttempt ''no agent available'' 0 plain_task) = ''failed''"
    by (simp_all add: failedAttempt_def plain_task_def)
  show ?thesis
    using no_agent_is_a_failed_attempt [where s = constructor and agents = "[]" and t = plain_task
        and rnd = always_fails, OF select_none refl refl]
      select_none [of "schedulerConfig constructor" plain_task] b
    by (simp add: c a)
qed

subsection \<open>Retries\<close>

lemma retry_inv_submitted: "retry_inv submitted"
  by (simp add: retry_inv_def submitted_def scheduleTask_def scheduledTask_def Let_def queue_get_def
      constructor_def plain_task_def str_or_def int_or_def)

lemma executeTask_fails:
  assumes c: "schedulerConfig s = schedulerConfig constructor" and a: "attempts t = 0" and m: "maxAttempts t = Some 3"
  shows "failedTasks (executeTask always_fails [idle_agent] t s) = failedTasks s
    \<and> (\<exists>t'. timers (executeTask always_fails [idle_agent] t s) = timers s @ [(1000, t')]
          \<and> task_id t' = task_id t \<and> priority t' = priority t \<and> maxAttempts t' = Some 3
          \<and> attempts t' = 1 \<and> status t' = ''failed'')"
proof -
  have sel: "selectAgent (schedulerConfig s) [idle_agent] x = Some idle_agent" for x
    by (simp add: c select_idle)
  have rd: "retryDelay (schedulerConfig s) = 1000" by (simp add: c constructor_def)
  show ?thesis
    using a m
    by (simp add: executeTask_def executeTask_begin_def Let_def sel runTask_def
        always_fails_def handleTaskFailure_def below_maxAttempts_def rd)
qed

lemma checkRunningTasks_idle: "runningTasks s = [] \<Longrightarrow> checkRunningTasks s = s"
  by (simp add: checkRunningTasks_def)

lemma retry_inv_loopBody:
  assumes "retry_inv s"
  shows "\<exists>t'. loopBody always_fails [idle_agent] s
             = sleep 1000 (executeTask always_fails [idle_agent] (hd (queue_get s ''medium''))
                 (s\<lparr>queues := (queues s)(''medium'' \<mapsto> [])\<rparr>))
         \<and> failedTasks (loopBody always_fails [idle_agent] s) = []
         \<and> runningTasks (loopBody always_fails [idle_agent] s) = []
         \<and> schedulerConfig (loopBody always_fails [idle_agent] s) = schedulerConfig constructor
         \<and> queues (loopBody always_fails [idle_agent] s) = (queues s)(''medium'' \<mapsto> [])
         \<and> timers (loopBody always_fails [idle_agent] s) = [(1000, t')]
         \<and> task_id t' = Some ''t1'' \<and> priority t' = None \<and> maxAttempts t' = Some 3
         \<and> attempts t' = 1 \<and> status t' = ''failed''"
proof -
  from assms obtain t where f: "failedTasks s = []" and r: "runningTasks s = []"
    and ti: "timers s = []" and c: "schedulerConfig s = schedulerConfig constructor"
    and qc: "queue_get s ''critical'' = []" and qh: "queue_get s ''high'' = []"
    and ql: "queue_get s ''low'' = []" and qm: "queue_get s ''medium'' = [t]"
    and t: "task_id t = Some ''t1''" "priority t = None" "maxAttempts t = Some 3"
      "attempts t = 0" "status t = ''queued''"
    unfolding retry_inv_def by blast
  let ?s0 = "s\<lparr>queues := (queues s)(''medium'' \<mapsto> [])\<rparr>"
  let ?s1 = "executeTask always_fails [idle_agent] t ?s0"
  have can: "canExecuteMoreTasks s" by (simp add: canExecuteMoreTasks_def r c constructor_def)
  have pm: "processLevel always_fails [idle_agent] ''medium'' s = ?s1"
    by (simp add: processLevel_def qm can)
  have q1: "queues ?s1 = (queues s)(''medium'' \<mapsto> [])" by (simp add: executeTask_queues)
  have ql1: "queue_get ?s1 ''low'' = []" using ql by (simp add: queue_get_def q1)
  have pq: "processQueues always_fails [idle_agent] s = ?s1"
    by (simp add: processQueues_def priorityOrder_def processLevel_empty qc qh pm ql1)
  have r1: "runningTasks ?s1 = []" by (simp add: executeTask_running r)
  have c1: "schedulerConfig ?s1 = schedulerConfig constructor" by (simp add: executeTask_config c)
  obtain t' where f1: "failedTasks ?s1 = []" and t1: "timers ?s1 = [(1000, t')]"
    and t': "task_id t' = Some ''t1''" "priority t' = None" "maxAttempts t' = Some 3"
      "attempts t' = 1" "status t' = ''failed''"
    using executeTask_fails [of ?s0 t] c t f ti by auto
  have lb: "loopBody always_fails [idle_agent] s = sleep 1000 ?s1"
    by (simp add: loopBody_def pq checkRunningTasks_idle r1)
  show ?thesis
    unfolding lb using f1 r1 c1 q1 t1 t' by (simp add: sleep_def qm)
qed

lemma retry_inv_cycle: 
  assumes "retry_inv s"
  shows "retry_inv (cycle always_fails [idle_agent] fresh s)"
proof -
  from assms have qc: "queues s ''critical'' = None \<or> queues s ''critical'' = Some []"
    and qh: "queues s ''high'' = None \<or> queues s ''high'' = Some []"
    and ql: "queues s ''low'' = None \<or> queues s ''low'' = Some []"
    by (auto simp: retry_inv_def queue_get_def split: option.splits)
  obtain t' where f: "failedTasks (loopBody always_fails [idle_agent] s) = []"
    and r: "runningTasks (loopBody always_fails [idle_agent] s) = []"
    and c: "schedulerConfig (loopBody always_fails [idle_agent] s) = schedulerConfig constructor"
    and q: "queues (loopBody always_fails [idle_agent] s) = (queues s)(''medium'' \<mapsto> [])"
    and ti: "timers (loopBody always_fails [idle_agent] s) = [(1000, t')]"
    and t': "task_id t' = Some ''t1''" "priority t' = None" "maxAttempts t' = Some 3"
    using retry_inv_loopBody [OF assms] by blast
  show ?thesis
    using qc qh ql
    by (auto simp: cycle_def fireAllTimers_def ti retry_inv_def retryCallback_def scheduleTask_def
        scheduledTask_def Let_def f r c q t' queue_get_def str_or_def int_or_def)
qed

text \<open>
  C1. The claim has a task with \<^verbatim>\<open>maxAttempts = 3\<close> that always fails end as
  \<^verbatim>\<open>failed\<close> with \<^verbatim>\<open>attempts = 3\<close> after three cycles. In the source the retry
  callback hands the task to \<^verbatim>\<open>scheduleTask\<close>, which sets \<^verbatim>\<open>attempts\<close> back to 0.
  So after any number of cycles nothing is in \<^verbatim>\<open>failedTasks\<close> and the task waits again
  with \<^verbatim>\<open>attempts = 0\<close>; after the third execution its counter is 1 and a fourth
  attempt is pending.
\<close>
theorem always_failing_task_is_retried_forever:
  "failedTasks ((cycle always_fails [idle_agent] fresh ^^ n) submitted) = []
   \<and> map attempts (queue_get ((cycle always_fails [idle_agent] fresh ^^ n) submitted) ''medium'') = [0]
   \<and> map status (queue_get ((cycle always_fails [idle_agent] fresh ^^ n) submitted) ''medium'') = [''queued'']
   \<and> failedTasks (loopBody always_fails [idle_agent]
        ((cycle always_fails [idle_agent] fresh ^^ 2) submitted)) = []
   \<and> map (attempts \<circ> snd) (timers (loopBody always_fails [idle_agent]
        ((cycle always_fails [idle_agent] fresh ^^ 2) submitted))) = [1]"
proof -
  have n: "retry_inv ((cycle always_fails [idle_agent] fresh ^^ k) submitted)" for k
    by (induction k) (simp_all add: retry_inv_submitted retry_inv_cycle)
  obtain t' where "failedTasks (loopBody always_fails [idle_agent]
        ((cycle always_fails [idle_agent] fresh ^^ 2) submitted)) = []"
    and "timers (loopBody always_fails [idle_agent]
        ((cycle always_fails [idle_agent] fresh ^^ 2) submitted)) = [(1000, t')]"
    and "attempts t' = 1"
    using retry_inv_loopBody [OF n [of 2]] by blast
  then show ?thesis using n [of n] by (auto simp: retry_inv_def)
qed

subsection \<open>Queues that are never polled\<close>








section \<open>Properties of the tracker and of the reports\<close>

subsection \<open>System health\<close>

lemma score_formula:
  "score (assessSystemHealth sd) =
     max (100
          - (if js_gt (js_div (real (tfailedTasks (sd_performanceMetrics sd)))
                         (real (totalTasks (sd_performanceMetrics sd)))) (1 / 10) then 30 else 0)
          - (if js_gt (averageExecutionTime (sd_performanceMetrics sd)) 20000 then 20 else 0)
          - (if js_lt (js_div (real (successfulTasks (sd_performanceMetrics sd)))
                         (real (totalTasks (sd_performanceMetrics sd)))) (9 / 10) then 25 else 0)) 0"
  by (simp add: assessSystemHealth_def Let_def)

lemma new_score: "score (reportedHealth new_tracker) = 100"
  by (simp add: reportedHealth_def snapshot_def score_formula new_tracker_def js_div_def)

lemma finished_inv_new: "finished_inv new_tracker []"
  by (simp add: finished_inv_def new_tracker_def)

lemma sum_durations_zero:
  "list_all (\<lambda>t. duration t = Some 0) ts \<Longrightarrow>
     sum_list (map (\<lambda>t. case duration t of None \<Rightarrow> 0 | Some d \<Rightarrow> d) ts) = 0"
  by (induction ts) auto

lemma finished_inv_step:
  assumes "finished_inv tr sts" and "st = ''completed'' \<or> st = ''failed''"
  shows "finished_inv (calls_run rt (finish st) tr) (sts @ [st])"
proof -
  from assms(1) have a: "activeTasks tr = []" and d: "list_all (\<lambda>t. duration t = Some 0) (tcompletedTasks tr)"
    by (simp_all add: finished_inv_def)
  have s: "sum_list (map (\<lambda>t. case duration t of None \<Rightarrow> 0 | Some d \<Rightarrow> d) (tcompletedTasks tr)) = 0"
    by (rule sum_durations_zero [OF d])
  show ?thesis
    using assms s
    by (auto simp: finished_inv_def calls_run_def finish_def createTaskTracker_def addTaskPhase_def
        updateTaskStatus_def completeTask_def updatePerformanceMetrics_def Let_def a no_data_def
        noteAgent_def newPhase_def
        truthy_def time_or_def js_div_def)
qed

lemma calls_run_append: "calls_run rt (cs @ ds) tr = calls_run rt ds (calls_run rt cs tr)"
  by (simp add: calls_run_def)

lemma finished_inv_run:
  "finished_inv tr sts \<Longrightarrow> list_all (\<lambda>st. st = ''completed'' \<or> st = ''failed'') sts' \<Longrightarrow>
     finished_inv (calls_run rt (concat (map finish sts')) tr) (sts @ sts')"
proof (induction sts' arbitrary: tr sts)
  case Nil
  then show ?case by (simp add: calls_run_def)
next
  case (Cons st sts')
  have 1: "finished_inv (calls_run rt (finish st) tr) (sts @ [st])"
    using Cons.prems by (simp add: finished_inv_step)
  have 2: "list_all (\<lambda>st. st = ''completed'' \<or> st = ''failed'') sts'" using Cons.prems by simp
  show ?case using Cons.IH [OF 1 2] by (simp add: calls_run_append)
qed

lemma history40_inv: "finished_inv history40 (replicate 37 ''completed'' @ replicate 3 ''failed'')"
  unfolding history40_def
  using finished_inv_run [OF finished_inv_new, of "replicate 37 ''completed'' @ replicate 3 ''failed''" plain_runtime]
  by (simp add: list_all_iff)

lemma reported_score:
  "score (reportedHealth tr) =
     max (100 - (if js_gt (errorRate tr) (1 / 10) then 30 else 0)
              - (if js_gt (averageExecutionTime (performanceMetrics tr)) 20000 then 20 else 0)
              - (if js_lt (cumulativeSuccessRate tr) (9 / 10) then 25 else 0)) 0"
  by (simp add: reportedHealth_def snapshot_def score_formula errorRate_def cumulativeSuccessRate_def)

text \<open>
  C9, amended: the score is 100 minus 30 when the error rate exceeds 10 percent, minus 20
  when the average execution time exceeds 20000 ms, minus 25 when the success rate is below
  90 percent, and never below 0; it is 100 while no task was ever finished; and it is at most
  75 when the success rate is below 90 percent. Both rates are cumulative: the counters of
  all tasks ever finished, not of the last 20.
\<close>
theorem health_score:
  "score (reportedHealth tr) =
     max (100 - (if js_gt (errorRate tr) (1 / 10) then 30 else 0)
              - (if js_gt (averageExecutionTime (performanceMetrics tr)) 20000 then 20 else 0)
              - (if js_lt (cumulativeSuccessRate tr) (9 / 10) then 25 else 0)) 0
   \<and> 0 \<le> score (reportedHealth tr)
   \<and> (totalTasks (performanceMetrics tr) = 0 \<and> successfulTasks (performanceMetrics tr) = 0
        \<and> tfailedTasks (performanceMetrics tr) = 0
        \<and> averageExecutionTime (performanceMetrics tr) = Num 0
      \<longrightarrow> score (reportedHealth tr) = 100)
   \<and> (js_lt (cumulativeSuccessRate tr) (9 / 10) \<longrightarrow> score (reportedHealth tr) \<le> 100 - 25)"
  by (simp add: reported_score errorRate_def cumulativeSuccessRate_def js_div_def)

lemma one_failure_inv: "finished_inv one_failure [''failed'']"
  unfolding one_failure_def
  using finished_inv_step [OF finished_inv_new, of "''failed''" plain_runtime] by simp

theorem health_score_witness:
  "totalTasks (performanceMetrics new_tracker) = 0
   \<and> score (reportedHealth new_tracker) = 100
   \<and> js_lt (cumulativeSuccessRate one_failure) (9 / 10)
   \<and> score (reportedHealth one_failure) \<le> 100 - 25"
proof -
  have n: "totalTasks (performanceMetrics new_tracker) = 0 \<and> successfulTasks (performanceMetrics new_tracker) = 0
        \<and> tfailedTasks (performanceMetrics new_tracker) = 0
        \<and> averageExecutionTime (performanceMetrics new_tracker) = Num 0"
    by (simp add: new_tracker_def)
  have f: "js_lt (cumulativeSuccessRate one_failure) (9 / 10)"
    using one_failure_inv by (simp add: finished_inv_def cumulativeSuccessRate_def js_div_def)
  show ?thesis using health_score [of new_tracker] health_score [of one_failure] n f by blast
qed

text \<open>
  C9, as stated, fails in its last part: after 37 completed and then 3 failed tasks the
  success rate of the last 20 archived tasks, as \<^verbatim>\<open>analyzePerformancePatterns\<close> computes
  it, is 17/20, below 90 percent, and the score is still 100.
\<close>
theorem health_score_window_counterexample:
  "map_option fst (analyzePerformancePatterns history40) = Some (Num (17 / 20))
   \<and> js_lt (Num (17 / 20)) (9 / 10)
   \<and> score (reportedHealth history40) = 100"
proof -
  let ?cts = "tcompletedTasks history40"
  let ?sts = "replicate 37 ''completed'' @ replicate 3 ''failed''"
  have m: "map tstatus ?cts = ?sts"
    and tot: "totalTasks (performanceMetrics history40) = 40"
    and suc: "successfulTasks (performanceMetrics history40) = 37"
    and fl: "tfailedTasks (performanceMetrics history40) = 3"
    and av: "averageExecutionTime (performanceMetrics history40) = Num 0"
    using history40_inv by (simp_all add: finished_inv_def)
  have len: "length ?cts = 40" using arg_cong [OF m, of length] by simp
  have "length (filter (\<lambda>t. tstatus t = ''completed'') (drop 20 ?cts))
      = length (filter (\<lambda>s. s = ''completed'') (drop 20 (map tstatus ?cts)))"
    by (simp add: drop_map filter_map comp_def)
  also have "\<dots> = 17" by (simp add: m)
  finally have c: "length (filter (\<lambda>t. tstatus t = ''completed'') (drop 20 ?cts)) = 17" .
  have a: "map_option fst (analyzePerformancePatterns history40) = Some (Num (17 / 20))"
    by (simp add: analyzePerformancePatterns_def Let_def len c js_div_def)
  have s: "score (reportedHealth history40) = 100"
    by (simp add: reported_score errorRate_def cumulativeSuccessRate_def tot suc fl av js_div_def)
  show ?thesis using a s by simp
qed

subsection \<open>The task report and the clock\<close>

lemma one_success_inv: "finished_inv one_success [''completed'']"
  unfolding one_success_def
  using finished_inv_step [OF finished_inv_new, of "''completed''" plain_runtime] by simp

text \<open>
  C8, as stated, fails: the report of one archived, completed record differs between two
  instants of generation.
\<close>
theorem report_clock_counterexample:
  "map tstatus (tcompletedTasks one_success) = [''completed'']
   \<and> generateTaskReport plain_runtime 1000 (hd (tcompletedTasks one_success))
       \<noteq> generateTaskReport plain_runtime 2000 (hd (tcompletedTasks one_success))"
proof -
  have "generateTaskReport plain_runtime 1000 t \<noteq> generateTaskReport plain_runtime 2000 t" for t
  proof
    assume "generateTaskReport plain_runtime 1000 t = generateTaskReport plain_runtime 2000 t"
    then have "generatedAt (metadata (generateTaskReport plain_runtime 1000 t))
      = generatedAt (metadata (generateTaskReport plain_runtime 2000 t))"
      by simp
    then show False by (simp add: generateTaskReport_def)
  qed
  then show ?thesis using one_success_inv by (simp add: finished_inv_def)
qed

text \<open>
  C8, amended: \<^verbatim>\<open>generateTaskReport\<close> is a function of the record, of the host's number
  and time formatting, and of the instant of generation, which it stores in
  \<^verbatim>\<open>metadata.generatedAt\<close>; every other entry of the report is the same at any two
  instants. \<^verbatim>\<open>completeTask\<close> returns the report of the record it found active, and
  archives that record as it was.
\<close>
theorem report_clock_only_generatedAt:
  "generateTaskReport rt now task =
     (generateTaskReport rt now' task)
       \<lparr> metadata := (metadata (generateTaskReport rt now' task))\<lparr> generatedAt := now \<rparr> \<rparr>
   \<and> generatedAt (metadata (generateTaskReport rt now task)) = now
   \<and> fst (completeTask rt now tid tr) = map_option (generateTaskReport rt now) (map_of (activeTasks tr) tid)
   \<and> tcompletedTasks (snd (completeTask rt now tid tr))
       = tcompletedTasks tr @ (case map_of (activeTasks tr) tid of None \<Rightarrow> [] | Some t \<Rightarrow> [t])"
  by (simp add: generateTaskReport_def completeTask_def updatePerformanceMetrics_def Let_def
      split: option.splits)

subsection \<open>Phases and errors\<close>

lemma grows_refl: "grows t t"
  by (simp add: grows_def)






lemma kept_fresh:
  assumes "activeTasks tr' = AList.update k t' (activeTasks tr)" and "tid \<noteq> k"
  shows "kept tr tr' tid"
  using assms by (auto simp: kept_def update_conv' grows_refl split: option.splits)

lemma noteAgent_phases [simp]: "phases (noteAgent data t) = phases t"
  by (simp add: noteAgent_def)

lemma noteAgent_errors [simp]: "errors (noteAgent data t) = errors t"
  by (simp add: noteAgent_def)

































end
